theory Spec2Isabelle
  imports Complex_Main "HOL-Library.Word"
begin

section \<open>Firmware-based retraction (fwretract.cpp)\<close>

text \<open>
  The controller \<open>FWRetract\<close> has two operations, \<open>reset()\<close> and \<open>retract(retracting,
  swapping)\<close>. Both work on static data of the class, on a function-static variable
  (\<open>hop_amount\<close>) and on globals of the surrounding firmware (the tracked position, the
  destination, the feedrate, the active extruder, the planner).

  Modelling decisions.
  \<^item> A \<open>float\<close> of the source is the \<open>real\<close> that is its value; infinities and NaN have
    none and are outside the model. The comparisons of the source are exact on these
    values. The arithmetic is not: every \<open>+\<close>, \<open>-\<close>, \<open>*\<close> and \<open>/\<close> of the source rounds its
    result, and what it yields depends on the target. The operations are therefore a
    parameter of \<open>retract\<close> (the record \<open>float_ops\<close>), one operation of the record for each
    operator of the source, so that a theorem stated for every such record holds for the
    arithmetic of the firmware. The one sum kept as the exact sum is that of line 145,
    which adds to a \<open>hop_amount\<close> that is zero. The quotient
    \<open>1.0 / planner.e_factor[active_extruder]\<close>
    has a finite value only for a factor other than zero, which the theorems about
    filament coordinates assume.
  \<^item> A C array is a list; the theorems assume the indices in range (\<open>valid\<close>).
  \<^item> Mutation is state passing: an operation maps the state of the machine to the next one.
  \<^item> The compile-time macros (\<open>EXTRUDERS\<close> and the default values) are not defined in
    fwretract.cpp; they are the fields of a record that the operations take as a parameter.
    The conditional compilation on \<open>EXTRUDERS > 1\<close> is a test on that parameter.
\<close>

subsection \<open>Data\<close>

text \<open>A position: the array \<open>float[XYZE]\<close>, indexed by the axis.\<close>

record xyze =
  X_AXIS :: real
  Y_AXIS :: real
  Z_AXIS :: real
  E_AXIS :: real

text \<open>The macros that fwretract.cpp reads.\<close>

record Configuration =
  EXTRUDERS :: nat
  RETRACT_LENGTH :: real
  RETRACT_FEEDRATE :: real
  RETRACT_ZLIFT :: real
  RETRACT_RECOVER_LENGTH :: real
  RETRACT_RECOVER_FEEDRATE :: real
  RETRACT_LENGTH_SWAP :: real
  RETRACT_RECOVER_LENGTH_SWAP :: real
  RETRACT_RECOVER_FEEDRATE_SWAP :: real

text \<open>A move handed to the planner: where it starts, where it ends, how fast.\<close>

record block =
  block_start :: xyze
  block_target :: xyze
  block_feedrate :: real

subsection \<open>Float arithmetic\<close>

text \<open>
  The four operations on \<open>float\<close> values that \<open>retract\<close> uses, each giving the rounded
  result: \<open>fadd\<close> for \<open>+\<close> and \<open>+=\<close>, \<open>fsub\<close> for \<open>-=\<close>, \<open>fmul\<close> for \<open>*\<close>, and \<open>fdiv\<close>
  for the quotient of line 132 as stored in the \<open>float\<close> variable \<open>renormalize\<close>.
\<close>

record float_ops =
  fadd :: "real \<Rightarrow> real \<Rightarrow> real"
  fsub :: "real \<Rightarrow> real \<Rightarrow> real"
  fmul :: "real \<Rightarrow> real \<Rightarrow> real"
  fdiv :: "real \<Rightarrow> real \<Rightarrow> real"

text \<open>
  One such arithmetic, used for the examples: IEEE 754 binary32 with rounding to nearest,
  ties to even. A value with 24 significant bits in the exponent range is kept; any other
  real goes to the nearest such value. \<open>exponent_of x\<close> is the \<open>e\<close> with
  \<open>2^e \<le> |x| < 2^(e+1)\<close>; below \<open>2^-126\<close> the spacing stays that of the subnormal numbers.
  Results beyond the largest finite value and quotients by zero, which the hardware turns
  into an infinity, are outside the model. The quotient is rounded once, as on the 8-bit targets where \<open>double\<close>
  is binary32 as well.
\<close>

fun bit_length :: "nat \<Rightarrow> nat" where
  "bit_length n = (if n = 0 then 0 else Suc (bit_length (n div 2)))"

declare bit_length.simps [simp del]

definition exponent_of :: "real \<Rightarrow> int" where
  "exponent_of x =
     (if 1 \<le> \<bar>x\<bar> then int (bit_length (nat \<lfloor>\<bar>x\<bar>\<rfloor>)) - 1
      else - int (bit_length (nat (\<lceil>1 / \<bar>x\<bar>\<rceil> - 1))))"

definition pow2 :: "int \<Rightarrow> real" where
  "pow2 k = (if 0 \<le> k then 2 ^ nat k else 1 / 2 ^ nat (- k))"

definition round_half_even :: "real \<Rightarrow> int" where
  "round_half_even q =
     (let r = \<lfloor>q\<rfloor>; d = q - of_int r
      in if d < 1 / 2 then r else if 1 / 2 < d then r + 1 else if even r then r else r + 1)"

definition round_binary32 :: "real \<Rightarrow> real" where
  "round_binary32 x =
     (if x = 0 then 0
      else (let u = pow2 (max (exponent_of x) (- 126) - 23)
            in of_int (round_half_even (x / u)) * u))"

definition binary32 :: float_ops where
  "binary32 =
     \<lparr>fadd = (\<lambda>x y. round_binary32 (x + y)),
      fsub = (\<lambda>x y. round_binary32 (x - y)),
      fmul = (\<lambda>x y. round_binary32 (x * y)),
      fdiv = (\<lambda>x y. round_binary32 (x / y))\<rparr>"

subsection \<open>The state\<close>

text \<open>
  The state. First the static members of \<open>FWRetract\<close> (lines 41-55) and the
  function-static \<open>hop_amount\<close> (line 96); then the globals of Marlin.h that
  \<open>retract\<close> reads and writes; then the planner: its tables \<open>e_factor\<close> and
  \<open>max_feedrate_mm_s\<close>, the position it holds, and the moves queued so far, oldest first.
\<close>

record machine =
  autoretract_enabled :: bool
  retracted :: "bool list"
  retracted_swap :: "bool list"
  retract_length :: real
  retract_feedrate_mm_s :: real
  retract_zlift :: real
  retract_recover_length :: real
  retract_recover_feedrate_mm_s :: real
  swap_retract_length :: real
  swap_retract_recover_length :: real
  swap_retract_recover_feedrate_mm_s :: real
  hop_amount :: real
  active_extruder :: nat
  feedrate_mm_s :: real
  current_position :: xyze
  destination :: xyze
  e_factor :: "real list"
  max_feedrate_mm_s :: xyze
  planner_position :: xyze
  queued :: "block list"

text \<open>
  The indices are in range: the arrays have \<open>EXTRUDERS\<close> entries (\<open>retracted_swap\<close>
  exists only in a build with several extruders) and \<open>active_extruder\<close> is one of them.
\<close>

definition valid :: "Configuration \<Rightarrow> machine \<Rightarrow> bool" where
  "valid c s \<longleftrightarrow>
     active_extruder s < EXTRUDERS c \<and>
     length (retracted s) = EXTRUDERS c \<and>
     (EXTRUDERS c \<le> 1 \<or> length (retracted_swap s) = EXTRUDERS c) \<and>
     length (e_factor s) = EXTRUDERS c"

subsection \<open>The motion interface\<close>

text \<open>
  Modelled from the spec: \<open>set_destination_from_current\<close> (Marlin.h, not in
  fwretract.cpp) records the current position as the destination of the moves to come
  (section 4.1, step 1).
\<close>

definition set_destination_from_current :: "machine \<Rightarrow> machine" where
  "set_destination_from_current s = s\<lparr>destination := current_position s\<rparr>"

text \<open>
  Modelled from the spec: \<open>stepper.synchronize\<close> (stepper.h, not in fwretract.cpp) blocks
  until the moves queued before have been carried out (section 4.1, step 2). It changes
  nothing that this model holds: \<open>queued\<close> is the history of the moves handed over, not
  the part of it still waiting.
\<close>

definition synchronize :: "machine \<Rightarrow> machine" where
  "synchronize s = s"

text \<open>
  Modelled from the spec: \<open>sync_plan_position_e\<close> (Marlin.h, not in fwretract.cpp)
  redefines the planner's filament coordinate as the tracked one, without motion
  (section 4.1, step 4a: a position redefinition, not a move).
\<close>

definition sync_plan_position_e :: "machine \<Rightarrow> machine" where
  "sync_plan_position_e s =
     s\<lparr>planner_position := (planner_position s)\<lparr>E_AXIS := E_AXIS (current_position s)\<rparr>\<rparr>"

text \<open>
  Modelled from the spec: \<open>SYNC_PLAN_POSITION_KINEMATIC\<close> (Marlin.h, not in
  fwretract.cpp) redefines the planner's position as the tracked position, without motion
  (section 4.1, steps 4b and 5a).
\<close>

definition SYNC_PLAN_POSITION_KINEMATIC :: "machine \<Rightarrow> machine" where
  "SYNC_PLAN_POSITION_KINEMATIC s = s\<lparr>planner_position := current_position s\<rparr>"

text \<open>
  Modelled from the spec: \<open>prepare_move_to_destination\<close> (Marlin.h, not in
  fwretract.cpp) issues a move to the destination at the present feedrate (section 4.1,
  steps 4 and 5). The planner moves from the position it holds; afterwards the planner
  and the tracked position are at the destination (section 8, scenario: the Z move that
  follows the filament move carries no filament displacement).
\<close>

definition prepare_move_to_destination :: "machine \<Rightarrow> machine" where
  "prepare_move_to_destination s =
     s\<lparr>queued := queued s @
          [\<lparr>block_start = planner_position s, block_target = destination s,
            block_feedrate = feedrate_mm_s s\<rparr>],
       planner_position := destination s,
       current_position := destination s\<rparr>"

subsection \<open>reset (lines 57-74)\<close>

text \<open>
  The loop of line 68 counts with a \<open>uint8_t\<close>: the counter wraps at 256, and the loop
  ends only when the counter reaches \<open>EXTRUDERS\<close>. A run that does not end is \<open>None\<close>.
\<close>

partial_function (option) reset_loop :: "Configuration \<Rightarrow> 8 word \<Rightarrow> machine \<Rightarrow> machine option" where
  "reset_loop c i s =
     (if unat i < EXTRUDERS c then
        reset_loop c (i + 1)
          (let s1 = s\<lparr>retracted := (retracted s)[unat i := False]\<rparr>
           in if 1 < EXTRUDERS c
              then s1\<lparr>retracted_swap := (retracted_swap s1)[unat i := False]\<rparr>
              else s1)
      else Some s)"

declare reset_loop.simps [code]

definition reset :: "Configuration \<Rightarrow> machine \<Rightarrow> machine option" where
  "reset c s =
     reset_loop c 0
       (s\<lparr>autoretract_enabled := False,
          retract_length := RETRACT_LENGTH c,
          retract_feedrate_mm_s := RETRACT_FEEDRATE c,
          retract_zlift := RETRACT_ZLIFT c,
          retract_recover_length := RETRACT_RECOVER_LENGTH c,
          retract_recover_feedrate_mm_s := RETRACT_RECOVER_FEEDRATE c,
          swap_retract_length := RETRACT_LENGTH_SWAP c,
          swap_retract_recover_length := RETRACT_RECOVER_LENGTH_SWAP c,
          swap_retract_recover_feedrate_mm_s := RETRACT_RECOVER_FEEDRATE_SWAP c\<rparr>)"

subsection \<open>retract (lines 90-194)\<close>

text \<open>
  The branch \<open>if (retracting)\<close>, lines 134-151. The sum of line 145 is the one sum kept
  exact: it is reached only with \<open>hop_amount\<close> zero, and zero plus a value is that value in
  float arithmetic too.
\<close>

definition retract_retracting ::
    "float_ops \<Rightarrow> bool \<Rightarrow> bool \<Rightarrow> real \<Rightarrow> machine \<Rightarrow> machine" where
  "retract_retracting fp swapping has_zhop renormalize s =
     (let s1 = s\<lparr>feedrate_mm_s := retract_feedrate_mm_s s\<rparr>;
          s2 = s1\<lparr>current_position := (current_position s1)
                 \<lparr>E_AXIS := fadd fp (E_AXIS (current_position s1))
                    (fmul fp (if swapping then swap_retract_length s1 else retract_length s1)
                       renormalize)\<rparr>\<rparr>;
          s3 = prepare_move_to_destination (sync_plan_position_e s2)
      in if has_zhop \<and> hop_amount s3 = 0 then
           (let s4 = s3\<lparr>hop_amount := hop_amount s3 + retract_zlift s3\<rparr>;
                s5 = s4\<lparr>feedrate_mm_s := Z_AXIS (max_feedrate_mm_s s4)\<rparr>;
                s6 = s5\<lparr>current_position := (current_position s5)
                       \<lparr>Z_AXIS := fsub fp (Z_AXIS (current_position s5)) (retract_zlift s5)\<rparr>\<rparr>
            in prepare_move_to_destination (SYNC_PLAN_POSITION_KINEMATIC s6))
         else s3)"

text \<open>The branch \<open>else\<close>, lines 152-169.\<close>

definition retract_recovering :: "float_ops \<Rightarrow> bool \<Rightarrow> real \<Rightarrow> machine \<Rightarrow> machine" where
  "retract_recovering fp swapping renormalize s =
     (let s3 = (if hop_amount s \<noteq> 0 then
                  (let s1 = s\<lparr>current_position := (current_position s)
                              \<lparr>Z_AXIS := fadd fp (Z_AXIS (current_position s)) (retract_zlift s)\<rparr>\<rparr>;
                       s2 = (SYNC_PLAN_POSITION_KINEMATIC s1)
                              \<lparr>feedrate_mm_s := Z_AXIS (max_feedrate_mm_s s1)\<rparr>
                   in (prepare_move_to_destination s2)\<lparr>hop_amount := 0\<rparr>)
                else s);
          s4 = s3\<lparr>feedrate_mm_s :=
                  (if swapping then swap_retract_recover_feedrate_mm_s s3
                   else retract_recover_feedrate_mm_s s3)\<rparr>;
          move_e = (if swapping
                    then fadd fp (swap_retract_length s4) (swap_retract_recover_length s4)
                    else fadd fp (retract_length s4) (retract_recover_length s4));
          s5 = s4\<lparr>current_position := (current_position s4)
                 \<lparr>E_AXIS := fsub fp (E_AXIS (current_position s4))
                    (fmul fp move_e renormalize)\<rparr>\<rparr>
      in prepare_move_to_destination (sync_plan_position_e s5))"

text \<open>
  The value of the variable \<open>swapping\<close> from line 109 on: in a build with one extruder it is
  the constant false (line 108); otherwise a recover takes it from \<open>retracted_swap\<close>
  (line 106) and a retract keeps the argument.
\<close>

definition swapping_in_effect :: "Configuration \<Rightarrow> bool \<Rightarrow> bool \<Rightarrow> machine \<Rightarrow> bool" where
  "swapping_in_effect c retracting swapping s =
     (if 1 < EXTRUDERS c
      then (if \<not> retracting then retracted_swap s ! active_extruder s else swapping)
      else False)"

text \<open>
  The whole function. The two early returns of lines 99 and 104 give the state back as
  it is. In a build with one extruder there is no parameter \<open>swapping\<close>; the model takes
  the argument and ignores it.
\<close>

definition retract ::
    "float_ops \<Rightarrow> Configuration \<Rightarrow> bool \<Rightarrow> bool \<Rightarrow> machine \<Rightarrow> machine" where
  "retract fp c retracting swapping_arg s =
     (if retracted s ! active_extruder s = retracting then s
      else if 1 < EXTRUDERS c \<and> swapping_arg
              \<and> retracted_swap s ! active_extruder s = retracting then s
      else
        (let swapping = swapping_in_effect c retracting swapping_arg s;
             has_zhop = (retract_zlift s > 0.01);
             old_feedrate_mm_s = feedrate_mm_s s;
             s1 = synchronize (set_destination_from_current s);
             renormalize = fdiv fp 1 (e_factor s1 ! active_extruder s1);
             s2 = (if retracting then retract_retracting fp swapping has_zhop renormalize s1
                   else retract_recovering fp swapping renormalize s1);
             s3 = s2\<lparr>feedrate_mm_s := old_feedrate_mm_s\<rparr>;
             s4 = s3\<lparr>retracted := (retracted s3)[active_extruder s3 := retracting]\<rparr>
         in if 1 < EXTRUDERS c \<and> swapping
            then s4\<lparr>retracted_swap := (retracted_swap s4)[active_extruder s4 := retracting]\<rparr>
            else s4))"

text \<open>A call is accepted when neither early return is taken (lines 99 and 104).\<close>

definition accepted :: "Configuration \<Rightarrow> bool \<Rightarrow> bool \<Rightarrow> machine \<Rightarrow> bool" where
  "accepted c retracting swapping_arg s \<longleftrightarrow>
     retracted s ! active_extruder s \<noteq> retracting \<and>
     \<not> (1 < EXTRUDERS c \<and> swapping_arg \<and> retracted_swap s ! active_extruder s = retracting)"

subsection \<open>Example machines\<close>

text \<open>
  A build with two extruders (retract 3 mm at 45 mm/s, swap retract 13 mm, hop 0.5 mm),
  and a machine of that build at rest: both extruders recovered, no hop pending, flow factor
  1 on the first extruder and 1/2 on the second. Every number is a binary32 value, and so
  is the exact result of every operation that \<open>retract\<close> performs on them: on these
  machines rounding changes nothing.
\<close>

definition example_build :: Configuration where
  "example_build =
     \<lparr>EXTRUDERS = 2, RETRACT_LENGTH = 3, RETRACT_FEEDRATE = 45, RETRACT_ZLIFT = 1 / 2,
      RETRACT_RECOVER_LENGTH = 0, RETRACT_RECOVER_FEEDRATE = 45, RETRACT_LENGTH_SWAP = 13,
      RETRACT_RECOVER_LENGTH_SWAP = 0, RETRACT_RECOVER_FEEDRATE_SWAP = 8\<rparr>"

definition origin :: xyze where
  "origin = \<lparr>X_AXIS = 0, Y_AXIS = 0, Z_AXIS = 0, E_AXIS = 0\<rparr>"

definition example_machine :: machine where
  "example_machine =
     \<lparr>autoretract_enabled = False, retracted = [False, False],
      retracted_swap = [False, False],
      retract_length = 3, retract_feedrate_mm_s = 45, retract_zlift = 1 / 2,
      retract_recover_length = 0, retract_recover_feedrate_mm_s = 45,
      swap_retract_length = 13, swap_retract_recover_length = 0,
      swap_retract_recover_feedrate_mm_s = 8,
      hop_amount = 0, active_extruder = 0, feedrate_mm_s = 60,
      current_position = \<lparr>X_AXIS = 10, Y_AXIS = 20, Z_AXIS = 5, E_AXIS = 100\<rparr>,
      destination = origin,
      e_factor = [1, 1 / 2],
      max_feedrate_mm_s = \<lparr>X_AXIS = 300, Y_AXIS = 300, Z_AXIS = 5, E_AXIS = 25\<rparr>,
      planner_position = \<lparr>X_AXIS = 10, Y_AXIS = 20, Z_AXIS = 5, E_AXIS = 100\<rparr>,
      queued = []\<rparr>"


text \<open>The same machine with the second extruder active.\<close>

definition example_second :: machine where
  "example_second = example_machine\<lparr>active_extruder := 1\<rparr>"

text \<open>The first extruder after a plain retract with its hop, and after a swap retract.\<close>

definition example_retracted :: machine where
  "example_retracted = example_machine\<lparr>retracted := [True, False], hop_amount := 1 / 2\<rparr>"

definition example_swapped :: machine where
  "example_swapped = example_machine\<lparr>retracted := [True, False],
     retracted_swap := [True, False], hop_amount := 1 / 2\<rparr>"

text \<open>
  A machine on which rounding shows: Z is 0.3 and the hop 0.4 as binary32 has them
  (5033165/2^24 and 13421773/2^25), the retract length is 1 mm and the flow factor of the
  active extruder is 3.
\<close>

definition example_inexact :: machine where
  "example_inexact = example_machine
     \<lparr>retract_length := 1, retract_zlift := 13421773 / 33554432,
      current_position := \<lparr>X_AXIS = 10, Y_AXIS = 20, Z_AXIS = 5033165 / 16777216, E_AXIS = 100\<rparr>,
      planner_position := \<lparr>X_AXIS = 10, Y_AXIS = 20, Z_AXIS = 5033165 / 16777216, E_AXIS = 100\<rparr>,
      e_factor := [3, 1]\<rparr>"

subsection \<open>Notions used by the properties\<close>

text \<open>
  No extruder is swap-retracted without being retracted. \<open>reset\<close> establishes this and
  \<open>retract\<close> keeps it (lemmas \<open>reset_swap_within_retracted\<close> and
  \<open>retract_keeps_swap_within_retracted\<close> below).
\<close>

definition swap_within_retracted :: "machine \<Rightarrow> bool" where
  "swap_within_retracted s \<longleftrightarrow>
     list_all2 (\<lambda>swapped plain. swapped \<longrightarrow> plain) (retracted_swap s) (retracted s)"

text \<open>The Z displacement of a move, and of a list of moves.\<close>

definition z_displacement :: "block \<Rightarrow> real" where
  "z_displacement b = Z_AXIS (block_target b) - Z_AXIS (block_start b)"

definition net_z :: "block list \<Rightarrow> real" where
  "net_z bs = sum_list (map z_displacement bs)"

text \<open>
  A run of retract requests with no recover in between. Between two requests the
  surroundings may select another extruder (a tool change) or write the two flags of the
  active extruder directly, which is how a second retract gets past the test of line 99.
\<close>

datatype step = Retract_call bool | Select_extruder nat | Write_flags bool bool

fun run_step :: "float_ops \<Rightarrow> Configuration \<Rightarrow> step \<Rightarrow> machine \<Rightarrow> machine" where
  "run_step fp c (Retract_call swapping) s = retract fp c True swapping s"
| "run_step fp c (Select_extruder n) s = s\<lparr>active_extruder := n\<rparr>"
| "run_step fp c (Write_flags r rs) s =
     s\<lparr>retracted := (retracted s)[active_extruder s := r],
       retracted_swap := (retracted_swap s)[active_extruder s := rs]\<rparr>"

fun step_in_range :: "Configuration \<Rightarrow> step \<Rightarrow> bool" where
  "step_in_range c (Select_extruder n) = (n < EXTRUDERS c)"
| "step_in_range c _ = True"

fun run :: "float_ops \<Rightarrow> Configuration \<Rightarrow> step list \<Rightarrow> machine \<Rightarrow> machine" where
  "run fp c [] s = s"
| "run fp c (st # rest) s = run fp c rest (run_step fp c st s)"

section \<open>The rounding of binary32\<close>

text \<open>
  \<open>exponent_of\<close> finds the binade of its argument, and a rounded value lies within half a
  unit in the last place of the exact one.
\<close>

lemma bit_length_bounds:
  "0 < n \<Longrightarrow> 2 ^ (bit_length n - 1) \<le> n \<and> n < 2 ^ bit_length n"
proof (induction n rule: bit_length.induct)
  case (1 n)
  show ?case
  proof (cases "n div 2 = 0")
    case True
    with "1.prems" have "n = 1" by (simp add: div_eq_0_iff) 
    then show ?thesis by (simp add: bit_length.simps)
  next
    case False
    then have pos: "0 < n div 2" by simp
    from "1.IH" [OF _ pos] "1.prems"
    have ih: "2 ^ (bit_length (n div 2) - 1) \<le> n div 2" "n div 2 < 2 ^ bit_length (n div 2)"
      by simp_all
    have bl: "bit_length n = Suc (bit_length (n div 2))"
      using "1.prems" by (subst bit_length.simps) simp
    have nz: "bit_length (n div 2) \<noteq> 0"
      using pos by (subst bit_length.simps) simp
    then obtain k where k: "bit_length (n div 2) = Suc k"
      by (cases "bit_length (n div 2)") simp_all
    from ih k have "2 * 2 ^ k \<le> 2 * (n div 2)" by simp
    also have "\<dots> \<le> n" by simp
    finally have lo: "2 ^ (bit_length n - 1) \<le> n" by (simp add: bl k)
    from ih(2) have "n div 2 + 1 \<le> 2 ^ bit_length (n div 2)" by simp
    then have "2 * (n div 2) + 2 \<le> 2 * 2 ^ bit_length (n div 2)" by simp
    moreover have "n \<le> 2 * (n div 2) + 1" by arith
    ultimately have hi: "n < 2 ^ bit_length n" by (simp add: bl)
    from lo hi show ?thesis ..
  qed
qed

lemma exponent_of_bounds:
  assumes "x \<noteq> 0"
  shows "pow2 (exponent_of x) \<le> \<bar>x\<bar> \<and> \<bar>x\<bar> < pow2 (exponent_of x + 1)"
proof (cases "1 \<le> \<bar>x\<bar>")
  case True
  define n where "n = nat \<lfloor>\<bar>x\<bar>\<rfloor>"
  have n: "0 < n" "real n \<le> \<bar>x\<bar>" "\<bar>x\<bar> < real n + 1"
    using True unfolding n_def by (simp_all add: le_nat_floor)
  from bit_length_bounds [OF n(1)]
  have b: "2 ^ (bit_length n - 1) \<le> n" "n < 2 ^ bit_length n" by simp_all
  have pos: "0 < bit_length n"
    using n(1) by (subst bit_length.simps) simp
  have e: "exponent_of x = int (bit_length n) - 1"
    using True by (simp add: exponent_of_def n_def)
  have lo: "pow2 (exponent_of x) = 2 ^ (bit_length n - 1)"
    using pos by (simp add: e pow2_def nat_diff_distrib')
  have hi: "pow2 (exponent_of x + 1) = 2 ^ bit_length n"
    by (simp add: e pow2_def)
  have "(2::real) ^ (bit_length n - 1) \<le> real n"
    using of_nat_mono [OF b(1), where 'a = real] by simp
  with n(2) have l: "(2::real) ^ (bit_length n - 1) \<le> \<bar>x\<bar>"
    by linarith
  from b(2) have "Suc n \<le> 2 ^ bit_length n" by simp
  then have "real n + 1 \<le> 2 ^ bit_length n"
    using of_nat_mono [where 'a = real and i = "Suc n" and j = "2 ^ bit_length n"] by simp
  with n(3) have h: "\<bar>x\<bar> < (2::real) ^ bit_length n"
    by linarith
  from l h show ?thesis by (simp add: lo hi)
next
  case False
  define y where "y = 1 / \<bar>x\<bar>"
  have x: "0 < \<bar>x\<bar>" "\<bar>x\<bar> < 1" using assms False by simp_all
  then have y: "1 < y" unfolding y_def by simp
  define m where "m = nat (\<lceil>y\<rceil> - 1)"
  have c: "2 \<le> \<lceil>y\<rceil>" using y by linarith
  have rm: "real m = real_of_int \<lceil>y\<rceil> - 1"
    using c by (simp add: m_def)
  have m: "0 < m" "real m < y" "y \<le> real m + 1"
  proof -
    show "0 < m" using c by (simp add: m_def)
    show "real m < y" unfolding rm by linarith
    show "y \<le> real m + 1" unfolding rm by linarith
  qed
  from bit_length_bounds [OF m(1)]
  have b: "2 ^ (bit_length m - 1) \<le> m" "m < 2 ^ bit_length m" by simp_all
  obtain k where k: "bit_length m = Suc k"
    using m(1) by (subst (asm) bit_length.simps) (cases "bit_length m"; simp add: bit_length.simps)
  have e: "exponent_of x = - int (Suc k)"
    using False by (simp add: exponent_of_def m_def y_def k [symmetric])
  from b(1) k have "2 ^ k \<le> m" by simp
  then have "(2::real) ^ k \<le> real m"
    using of_nat_mono [where 'a = real and i = "2 ^ k" and j = m] by simp
  with m(2) have ylo: "2 ^ k < y"
    by linarith
  from b(2) k have "Suc m \<le> 2 ^ Suc k" by simp
  then have "real m + 1 \<le> 2 ^ Suc k"
    using of_nat_mono [where 'a = real and i = "Suc m" and j = "2 ^ Suc k"] by simp
  with m(3) have yhi: "y \<le> 2 ^ Suc k"
    by linarith
  have lo: "1 / 2 ^ Suc k \<le> \<bar>x\<bar>"
    using yhi x(1) unfolding y_def by (simp add: field_simps)
  have hi: "\<bar>x\<bar> < 1 / 2 ^ k"
    using ylo x(1) unfolding y_def by (simp add: field_simps)
  have p1: "pow2 (exponent_of x) = 1 / 2 ^ Suc k"
    by (simp add: e pow2_def nat_add_distrib)
  have p2: "pow2 (exponent_of x + 1) = 1 / 2 ^ k"
    by (cases k) (simp_all add: e pow2_def nat_add_distrib)
  from lo hi show ?thesis by (simp only: p1 p2)
qed


lemma pow2_pos: "0 < pow2 k"
  by (simp add: pow2_def)

lemma round_half_even_near: "\<bar>of_int (round_half_even q) - q\<bar> \<le> 1 / 2"
proof -
  have "of_int \<lfloor>q\<rfloor> \<le> q" "q < of_int \<lfloor>q\<rfloor> + 1"
    by linarith+
  then show ?thesis
    by (auto simp add: round_half_even_def Let_def)
qed

lemma round_binary32_near:
  "\<bar>round_binary32 x - x\<bar> \<le> pow2 (max (exponent_of x) (- 126) - 23) / 2"
proof (cases "x = 0")
  case True
  then show ?thesis using pow2_pos [of "max (exponent_of x) (- 126) - 23"]
    by (simp add: round_binary32_def)
next
  case False
  define u where "u = pow2 (max (exponent_of x) (- 126) - 23)"
  have u: "0 < u" unfolding u_def by (rule pow2_pos)
  have r: "round_binary32 x = of_int (round_half_even (x / u)) * u"
    using False by (simp add: round_binary32_def u_def Let_def)
  have "round_binary32 x - x = (of_int (round_half_even (x / u)) - x / u) * u"
    using u by (simp add: r field_simps)
  then have "\<bar>round_binary32 x - x\<bar> = \<bar>of_int (round_half_even (x / u)) - x / u\<bar> * u"
    using u by (simp add: abs_mult)
  also have "\<dots> \<le> 1 / 2 * u"
    using round_half_even_near [of "x / u"] u by (intro mult_right_mono) simp_all
  finally show ?thesis by (simp add: u_def)
qed

section \<open>What a call of retract changes\<close>

lemmas motion_defs = set_destination_from_current_def synchronize_def sync_plan_position_e_def
  SYNC_PLAN_POSITION_KINEMATIC_def prepare_move_to_destination_def

lemmas retract_defs = retract_def retract_retracting_def retract_recovering_def
  swapping_in_effect_def Let_def

lemma retract_not_accepted: "\<not> accepted c r sw s \<Longrightarrow> retract fp c r sw s = s"
  by (auto simp add: retract_def accepted_def)

lemma retract_config:
  "autoretract_enabled (retract fp c r sw s) = autoretract_enabled s
   \<and> retract_length (retract fp c r sw s) = retract_length s
   \<and> retract_feedrate_mm_s (retract fp c r sw s) = retract_feedrate_mm_s s
   \<and> retract_zlift (retract fp c r sw s) = retract_zlift s
   \<and> retract_recover_length (retract fp c r sw s) = retract_recover_length s
   \<and> retract_recover_feedrate_mm_s (retract fp c r sw s) = retract_recover_feedrate_mm_s s
   \<and> swap_retract_length (retract fp c r sw s) = swap_retract_length s
   \<and> swap_retract_recover_length (retract fp c r sw s) = swap_retract_recover_length s
   \<and> swap_retract_recover_feedrate_mm_s (retract fp c r sw s) = swap_retract_recover_feedrate_mm_s s"
  by (simp add: retract_defs motion_defs)

lemma retract_active: "active_extruder (retract fp c r sw s) = active_extruder s"
  by (simp add: retract_defs motion_defs)

lemma retract_e_factor: "e_factor (retract fp c r sw s) = e_factor s"
  by (simp add: retract_defs motion_defs)

lemma retract_retracted:
  "retracted (retract fp c r sw s) =
     (if accepted c r sw s then (retracted s)[active_extruder s := r] else retracted s)"
  by (simp add: retract_defs motion_defs accepted_def)

lemma retract_retracted_swap:
  "retracted_swap (retract fp c r sw s) =
     (if accepted c r sw s \<and> 1 < EXTRUDERS c
           \<and> (if r then sw else retracted_swap s ! active_extruder s)
      then (retracted_swap s)[active_extruder s := r] else retracted_swap s)"
  by (simp add: retract_defs motion_defs accepted_def)

lemma retract_hop:
  "hop_amount (retract fp c r sw s) =
     (if accepted c r sw s then
        (if r then (if retract_zlift s > 0.01 \<and> hop_amount s = 0
                    then hop_amount s + retract_zlift s else hop_amount s)
         else 0)
      else hop_amount s)"
  by (simp add: retract_defs motion_defs accepted_def)

lemma retract_position: "current_position (retract fp c r sw s) = current_position s"
  by (simp add: retract_defs motion_defs accepted_def)

lemma retract_max_feedrate: "max_feedrate_mm_s (retract fp c r sw s) = max_feedrate_mm_s s"
  by (simp add: retract_defs motion_defs)

lemma retract_feedrate: "feedrate_mm_s (retract fp c r sw s) = feedrate_mm_s s"
  by (simp add: retract_defs motion_defs accepted_def)

lemma retract_planner:
  "accepted c r sw s \<Longrightarrow> planner_position (retract fp c r sw s) = current_position s"
  by (auto simp add: retract_defs motion_defs accepted_def)

lemma retract_valid: "valid c s \<Longrightarrow> valid c (retract fp c r sw s)"
  by (auto simp add: valid_def retract_active retract_retracted retract_retracted_swap
      retract_e_factor)

text \<open>The moves of an accepted retract: the filament pull, then the hop if there is one.\<close>

lemma retract_queued_retracting:
  assumes "accepted c True sw s"
  shows "queued (retract fp c True sw s) = queued s @
     \<lparr>block_start = (planner_position s)
          \<lparr>E_AXIS := fadd fp (E_AXIS (current_position s))
             (fmul fp (if 1 < EXTRUDERS c \<and> sw then swap_retract_length s else retract_length s)
                (fdiv fp 1 (e_factor s ! active_extruder s)))\<rparr>,
       block_target = current_position s,
       block_feedrate = retract_feedrate_mm_s s\<rparr>
     # (if retract_zlift s > 0.01 \<and> hop_amount s = 0 then
          [\<lparr>block_start = (current_position s)
               \<lparr>Z_AXIS := fsub fp (Z_AXIS (current_position s)) (retract_zlift s)\<rparr>,
            block_target = current_position s,
            block_feedrate = Z_AXIS (max_feedrate_mm_s s)\<rparr>]
        else [])"
  using assms by (simp add: retract_defs motion_defs accepted_def)

text \<open>The moves of an accepted recover: the hop undone if one is pending, then the filament.\<close>

lemma retract_queued_recovering:
  assumes "accepted c False sw s"
  shows "queued (retract fp c False sw s) = queued s @
     (if hop_amount s \<noteq> 0 then
        [\<lparr>block_start = (current_position s)
             \<lparr>Z_AXIS := fadd fp (Z_AXIS (current_position s)) (retract_zlift s)\<rparr>,
          block_target = current_position s,
          block_feedrate = Z_AXIS (max_feedrate_mm_s s)\<rparr>]
      else [])
     @ [\<lparr>block_start = (if hop_amount s \<noteq> 0 then current_position s else planner_position s)
           \<lparr>E_AXIS := fsub fp (E_AXIS (current_position s))
              (fmul fp
                 (if 1 < EXTRUDERS c \<and> retracted_swap s ! active_extruder s
                  then fadd fp (swap_retract_length s) (swap_retract_recover_length s)
                  else fadd fp (retract_length s) (retract_recover_length s))
                 (fdiv fp 1 (e_factor s ! active_extruder s)))\<rparr>,
         block_target = current_position s,
         block_feedrate = (if 1 < EXTRUDERS c \<and> retracted_swap s ! active_extruder s
                           then swap_retract_recover_feedrate_mm_s s
                           else retract_recover_feedrate_mm_s s)\<rparr>]"
  using assms by (simp add: retract_defs motion_defs accepted_def)

section \<open>The flags of one extruder\<close>

lemma swap_within_retracted_nth:
  assumes "swap_within_retracted s" "i < length (retracted s)" "retracted_swap s ! i"
  shows "retracted s ! i"
  using assms unfolding swap_within_retracted_def
  by (auto dest: list_all2_nthD2)

lemma retract_keeps_swap_within_retracted:
  assumes "1 < EXTRUDERS c" "swap_within_retracted s"
  shows "swap_within_retracted (retract fp c r sw s)"
proof (cases "accepted c r sw s")
  case False
  then show ?thesis using assms
    by (simp add: swap_within_retracted_def retract_retracted retract_retracted_swap)
next
  case True
  let ?a = "active_extruder s"
  have base: "list_all2 (\<lambda>swapped plain. swapped \<longrightarrow> plain) (retracted_swap s) (retracted s)"
    using assms by (simp add: swap_within_retracted_def)
  show ?thesis
  proof (cases "if r then sw else retracted_swap s ! ?a")
    case True
    with \<open>accepted c r sw s\<close> assms(1) show ?thesis
      using base by (simp add: swap_within_retracted_def retract_retracted retract_retracted_swap
          list_all2_update_cong)
  next
    case False
    have "list_all2 (\<lambda>swapped plain. swapped \<longrightarrow> plain)
            ((retracted_swap s)[?a := retracted_swap s ! ?a]) ((retracted s)[?a := r])"
    proof (rule list_all2_update_cong [OF base])
      show "retracted_swap s ! ?a \<longrightarrow> r"
        using False by (cases r) simp_all
    qed
    with False \<open>accepted c r sw s\<close> show ?thesis
      by (simp add: swap_within_retracted_def retract_retracted retract_retracted_swap)
  qed
qed

section \<open>The loop of reset\<close>

lemma unat_succ_u8:
  fixes i :: "8 word"
  assumes "unat i < 255"
  shows "unat (i + 1) = Suc (unat i)"
  using assms by (simp add: unat_word_ariths)

lemma fold_clear_length:
  "length (fold (\<lambda>j xs. xs[j := False]) js xs) = length xs"
  by (induction js arbitrary: xs) simp_all

lemma fold_clear_nth:
  "i < length xs \<Longrightarrow>
     fold (\<lambda>j xs. xs[j := False]) js xs ! i = (if i \<in> set js then False else xs ! i)"
  by (induction js arbitrary: xs) (auto simp add: nth_list_update)

lemma fold_clear_all:
  "fold (\<lambda>j xs. xs[j := False]) [0..<length xs] xs = replicate (length xs) False"
  by (rule nth_equalityI) (simp_all add: fold_clear_length fold_clear_nth)

text \<open>
  With at most 255 extruders the counter reaches \<open>EXTRUDERS\<close> before it wraps: started at
  \<open>i\<close>, the loop ends and has cleared the entries from \<open>i\<close> on.
\<close>

lemma reset_loop_run:
  assumes "EXTRUDERS c \<le> 255"
  shows "unat i \<le> EXTRUDERS c \<Longrightarrow>
     reset_loop c i s =
       Some (s\<lparr>retracted := fold (\<lambda>j xs. xs[j := False]) [unat i..<EXTRUDERS c] (retracted s),
               retracted_swap :=
                 (if 1 < EXTRUDERS c
                  then fold (\<lambda>j xs. xs[j := False]) [unat i..<EXTRUDERS c] (retracted_swap s)
                  else retracted_swap s)\<rparr>)"
proof (induction "EXTRUDERS c - unat i" arbitrary: i s)
  case 0
  then have "\<not> unat i < EXTRUDERS c" by simp
  then show ?case by (subst reset_loop.simps) simp
next
  case (Suc n)
  then have lt: "unat i < EXTRUDERS c" by simp
  with assms have u: "unat (i + 1) = Suc (unat i)"
    by (intro unat_succ_u8) simp
  have n: "n = EXTRUDERS c - unat (i + 1)" "unat (i + 1) \<le> EXTRUDERS c"
    using Suc.hyps(2) lt u by simp_all
  show ?case
    by (subst reset_loop.simps) (simp add: lt Suc.hyps(1) [OF n] u upt_conv_Cons Let_def)
qed

lemma reset_value:
  assumes "EXTRUDERS c \<le> 255"
    and "length (retracted s) = EXTRUDERS c"
    and "EXTRUDERS c \<le> 1 \<or> length (retracted_swap s) = EXTRUDERS c"
  shows "reset c s =
     Some (s\<lparr>autoretract_enabled := False,
             retract_length := RETRACT_LENGTH c,
             retract_feedrate_mm_s := RETRACT_FEEDRATE c,
             retract_zlift := RETRACT_ZLIFT c,
             retract_recover_length := RETRACT_RECOVER_LENGTH c,
             retract_recover_feedrate_mm_s := RETRACT_RECOVER_FEEDRATE c,
             swap_retract_length := RETRACT_LENGTH_SWAP c,
             swap_retract_recover_length := RETRACT_RECOVER_LENGTH_SWAP c,
             swap_retract_recover_feedrate_mm_s := RETRACT_RECOVER_FEEDRATE_SWAP c,
             retracted := replicate (EXTRUDERS c) False,
             retracted_swap :=
               (if 1 < EXTRUDERS c then replicate (EXTRUDERS c) False else retracted_swap s)\<rparr>)"
proof -
  have r: "fold (\<lambda>j xs. xs[j := False]) [0..<EXTRUDERS c] (retracted s)
             = replicate (EXTRUDERS c) False"
    using fold_clear_all [of "retracted s"] assms(2) by simp
  have rs: "1 < EXTRUDERS c \<Longrightarrow>
      fold (\<lambda>j xs. xs[j := False]) [0..<EXTRUDERS c] (retracted_swap s)
        = replicate (EXTRUDERS c) False"
    using fold_clear_all [of "retracted_swap s"] assms(3) by simp
  show ?thesis
    unfolding reset_def
    by (subst reset_loop_run [OF assms(1)]) (simp_all add: r rs)
qed

lemma reset_swap_within_retracted:
  assumes "EXTRUDERS c \<le> 255"
    and "1 < EXTRUDERS c"
    and "length (retracted s) = EXTRUDERS c"
    and "length (retracted_swap s) = EXTRUDERS c"
    and "reset c s = Some s'"
  shows "swap_within_retracted s'"
proof -
  have "EXTRUDERS c \<le> 1 \<or> length (retracted_swap s) = EXTRUDERS c"
    using assms(4) by simp
  from reset_value [OF assms(1) assms(3) this] assms(2,5)
  have "retracted s' = replicate (EXTRUDERS c) False"
    and "retracted_swap s' = replicate (EXTRUDERS c) False"
    by auto
  then show ?thesis
    by (simp add: swap_within_retracted_def list_all2_conv_all_nth)
qed

section \<open>Runs of retract requests\<close>

lemma run_step_valid:
  assumes "valid c t" "step_in_range c st"
  shows "valid c (run_step fp c st t)"
proof (cases st)
  case (Retract_call swapping)
  then show ?thesis using assms(1) by (simp add: retract_valid)
next
  case (Select_extruder n)
  then show ?thesis using assms by (simp add: valid_def)
next
  case (Write_flags r rs)
  then show ?thesis using assms(1) by (simp add: valid_def)
qed

lemma run_valid:
  assumes "valid c t" "list_all (step_in_range c) steps"
  shows "valid c (run fp c steps t)"
  using assms by (induction steps arbitrary: t) (simp_all add: run_step_valid)

lemma run_step_hop:
  assumes "hop_amount t = 0 \<or> hop_amount t = retract_zlift t"
  shows "retract_zlift (run_step fp c st t) = retract_zlift t
         \<and> (hop_amount (run_step fp c st t) = 0
              \<or> hop_amount (run_step fp c st t) = retract_zlift t)"
  using assms by (cases st) (auto simp add: retract_hop retract_config)

lemma run_hop:
  assumes "hop_amount t = 0 \<or> hop_amount t = retract_zlift t"
  shows "retract_zlift (run fp c steps t) = retract_zlift t
         \<and> (hop_amount (run fp c steps t) = 0 \<or> hop_amount (run fp c steps t) = retract_zlift t)"
  using assms
proof (induction steps arbitrary: t)
  case Nil
  then show ?case by simp
next
  case (Cons st steps)
  from run_step_hop [OF Cons.prems, where fp = fp and c = c and st = st]
  have z: "retract_zlift (run_step fp c st t) = retract_zlift t"
    and h: "hop_amount (run_step fp c st t) = 0
            \<or> hop_amount (run_step fp c st t) = retract_zlift (run_step fp c st t)"
    by simp_all
  from Cons.IH [OF h] z show ?case by simp
qed

section \<open>The example machines\<close>

lemma valid_examples:
  "valid example_build example_machine"
  "valid example_build example_second"
  "valid example_build example_retracted"
  "valid example_build example_swapped"
  "valid example_build example_inexact"
  by (simp_all add: valid_def example_build_def example_machine_def example_second_def
      example_retracted_def example_swapped_def example_inexact_def)

text \<open>The operations of \<open>binary32\<close>, and the definitions that evaluate a rounding.\<close>

lemma binary32_ops:
  "fadd binary32 x y = round_binary32 (x + y)"
  "fsub binary32 x y = round_binary32 (x - y)"
  "fmul binary32 x y = round_binary32 (x * y)"
  "fdiv binary32 x y = round_binary32 (x / y)"
  by (simp_all add: binary32_def)

lemmas round_eval = round_binary32_def exponent_of_def pow2_def round_half_even_def
  bit_length.simps Let_def

lemma extruders_example: "1 < EXTRUDERS example_build" "EXTRUDERS example_build \<le> 255"
  by (simp_all add: example_build_def)

text \<open>Some roundings: 0.4, 0.3 and 0.01 as binary32 has them, two ties, a negative value.\<close>

lemma round_binary32_samples:
  "round_binary32 (2 / 5) = 13421773 / 33554432"
  "round_binary32 (3 / 10) = 5033165 / 16777216"
  "round_binary32 (1 / 100) = 5368709 / 536870912"
  "round_binary32 16777217 = 16777216"
  "round_binary32 16777219 = 16777220"
  "round_binary32 (- (1 / 3)) = - (11184811 / 33554432)"
  by (simp_all add: round_eval)

text \<open>The operations that the example machines perform, in binary32.\<close>

lemma binary32_exact_values:
  "fdiv binary32 1 1 = 1"
  "fdiv binary32 1 (1 / 2) = 2"
  "fmul binary32 3 1 = 3"
  "fmul binary32 3 2 = 6"
  "fmul binary32 13 1 = 13"
  "fadd binary32 3 0 = 3"
  "fadd binary32 13 0 = 13"
  "fadd binary32 100 3 = 103"
  "fadd binary32 100 6 = 106"
  "fadd binary32 100 13 = 113"
  "fsub binary32 100 3 = 97"
  "fsub binary32 100 13 = 87"
  "fsub binary32 5 (1 / 2) = 9 / 2"
  "fadd binary32 5 (1 / 2) = 11 / 2"
  by (simp_all add: binary32_ops round_eval)

lemma binary32_rounded_values:
  "fdiv binary32 1 3 = 11184811 / 33554432"
  "fmul binary32 1 (11184811 / 33554432) = 11184811 / 33554432"
  "fadd binary32 100 (11184811 / 33554432) = 13150891 / 131072"
  "fsub binary32 (5033165 / 16777216) (13421773 / 33554432) = - (3355443 / 33554432)"
  "fadd binary32 (5033165 / 16777216) (13421773 / 33554432) = 2936013 / 4194304"
  by (simp_all add: binary32_ops round_eval)

text \<open>
  A run on the example machine: the second retract, let through by a direct write of the
  flags, and the third, on the other extruder, are accepted and leave the hop at one lift.
\<close>

lemma run_example:
  "hop_amount (run binary32 example_build
        [Retract_call False, Write_flags False False, Retract_call False,
         Select_extruder 1, Retract_call True] example_machine) = 1 / 2"
  by (simp add: retract_hop retract_config accepted_def retract_retracted retract_retracted_swap
      retract_active example_machine_def example_build_def)

section \<open>Suppressed calls\<close>

text \<open>
  Claim C1. When the \<open>retracted\<close> flag of the active extruder already equals the argument
  \<open>retracting\<close>, the call \<open>retract(retracting, swapping)\<close> returns at line 99, for either
  value of \<open>swapping\<close>: the whole state is as before, so no move is queued and the flags of
  every extruder, the hop amount, the position and the feedrate are unchanged.
\<close>

theorem retract_same_state_noop:
  assumes "valid c s"
    and "retracted s ! active_extruder s = retracting"
  shows "retract fp c retracting swapping s = s"
  using assms by (simp add: retract_def)

theorem retract_same_state_noop_witness:
  "valid example_build example_machine
   \<and> retracted example_machine ! active_extruder example_machine = False
   \<and> retract binary32 example_build False True example_machine = example_machine
   \<and> retract binary32 example_build False False example_machine = example_machine"
proof -
  have v: "valid example_build example_machine"
    by (rule valid_examples)
  have r: "retracted example_machine ! active_extruder example_machine = False"
    by (simp add: example_machine_def)
  show ?thesis
    using v r retract_same_state_noop [OF v r, where fp = binary32 and swapping = True]
      retract_same_state_noop [OF v r, where fp = binary32 and swapping = False]
    by simp
qed

text \<open>
  Claim C4. In a build with several extruders, a call with \<open>swapping\<close> true whose
  \<open>retracting\<close> equals the \<open>retracted_swap\<close> flag of the active extruder changes nothing
  and queues nothing, also when the \<open>retracted\<close> flag differs from \<open>retracting\<close>
  (the return of line 104).
\<close>

theorem retract_swap_same_state_noop:
  assumes "valid c s"
    and "1 < EXTRUDERS c"
    and "retracted_swap s ! active_extruder s = retracting"
  shows "retract fp c retracting True s = s"
  using assms by (simp add: retract_def)

theorem retract_swap_same_state_noop_witness:
  "valid example_build example_retracted
   \<and> 1 < EXTRUDERS example_build
   \<and> retracted_swap example_retracted ! active_extruder example_retracted = False
   \<and> retracted example_retracted ! active_extruder example_retracted \<noteq> False
   \<and> retract binary32 example_build False True example_retracted = example_retracted"
proof -
  have h1: "valid example_build example_retracted"
    by (rule valid_examples)
  have h2: "1 < EXTRUDERS example_build"
    by (rule extruders_example)
  have h3: "retracted_swap example_retracted ! active_extruder example_retracted = False"
    by (simp add: example_retracted_def example_machine_def)
  have h4: "retracted example_retracted ! active_extruder example_retracted \<noteq> False"
    by (simp add: example_retracted_def example_machine_def)
  show ?thesis
    using h1 h2 h3 h4 retract_swap_same_state_noop [OF h1 h2 h3] by simp
qed

text \<open>
  Claim C10. Every call of \<open>retract\<close>, suppressed or accepted, leaves the configuration
  (the lengths, the feedrates, the Z lift, the autoretract switch) as it was, and leaves
  both flags of every extruder other than the active one as they were; the flag arrays keep
  their length and the active extruder stays the same.
\<close>

theorem retract_frame:
  assumes "valid c s"
  shows "let s' = retract fp c retracting swapping s in
           autoretract_enabled s' = autoretract_enabled s
           \<and> retract_length s' = retract_length s
           \<and> retract_feedrate_mm_s s' = retract_feedrate_mm_s s
           \<and> retract_zlift s' = retract_zlift s
           \<and> retract_recover_length s' = retract_recover_length s
           \<and> retract_recover_feedrate_mm_s s' = retract_recover_feedrate_mm_s s
           \<and> swap_retract_length s' = swap_retract_length s
           \<and> swap_retract_recover_length s' = swap_retract_recover_length s
           \<and> swap_retract_recover_feedrate_mm_s s' = swap_retract_recover_feedrate_mm_s s
           \<and> active_extruder s' = active_extruder s
           \<and> length (retracted s') = length (retracted s)
           \<and> length (retracted_swap s') = length (retracted_swap s)
           \<and> (\<forall>i. i \<noteq> active_extruder s \<longrightarrow>
                  retracted s' ! i = retracted s ! i
                  \<and> retracted_swap s' ! i = retracted_swap s ! i)"
  by (simp add: Let_def retract_config retract_active retract_retracted retract_retracted_swap)

theorem retract_frame_witness:
  "valid example_build example_machine
   \<and> accepted example_build True True example_machine
   \<and> (let s' = retract binary32 example_build True True example_machine in
           autoretract_enabled s' = autoretract_enabled example_machine
           \<and> retract_length s' = 3
           \<and> retract_zlift s' = 1 / 2
           \<and> swap_retract_length s' = 13
           \<and> (1::nat) \<noteq> active_extruder example_machine
           \<and> retracted s' ! 1 = retracted example_machine ! 1
           \<and> retracted_swap s' ! 1 = retracted_swap example_machine ! 1)"
proof -
  have h: "valid example_build example_machine"
    by (rule valid_examples)
  have a: "accepted example_build True True example_machine"
    by (simp add: accepted_def example_machine_def)
  have f: "retract_length example_machine = 3" "retract_zlift example_machine = 1 / 2"
    "swap_retract_length example_machine = 13" "active_extruder example_machine = 0"
    by (simp_all add: example_machine_def)
  show ?thesis
    using h a retract_frame [OF h, where fp = binary32 and retracting = True and swapping = True] by (simp add: Let_def f)
qed

section \<open>The retract transition\<close>

text \<open>
  Claim C6, as amended. An accepted retract with flow factor \<open>f\<close> of the active extruder
  and configured length \<open>L\<close> (the swap length when \<open>swapping\<close> is true in a build with
  several extruders, the plain length otherwise) queues first a filament move that ends at
  the filament coordinate \<open>E\<close> held before the call and starts at the coordinate that the
  source computes as \<open>E + L * renormalize\<close>, with \<open>renormalize = 1 / f\<close>, each of the three
  operations rounded. When the three results are exact, the move starts \<open>L / f\<close> beyond
  \<open>E\<close>, so that its displacement has magnitude \<open>L / f\<close> (for a quotient that is not
  negative).

  As stated, with the magnitude \<open>L / f\<close> for every accepted retract, the claim fails
  where an operation rounds; the example after the theorem has \<open>L = 1\<close>, \<open>f = 3\<close> and
  \<open>E = 100\<close>.
\<close>

theorem retract_flow_compensation:
  assumes "valid c s"
    and "\<not> retracted s ! active_extruder s"
    and "\<not> (1 < EXTRUDERS c \<and> swapping \<and> retracted_swap s ! active_extruder s)"
    and "e_factor s ! active_extruder s \<noteq> 0"
  shows "let L = (if 1 < EXTRUDERS c \<and> swapping
                  then swap_retract_length s else retract_length s);
             f = e_factor s ! active_extruder s;
             E = E_AXIS (current_position s);
             s' = retract fp c True swapping s;
             b = queued s' ! length (queued s)
         in length (queued s) < length (queued s')
            \<and> take (length (queued s)) (queued s') = queued s
            \<and> block_target b = current_position s
            \<and> block_feedrate b = retract_feedrate_mm_s s
            \<and> E_AXIS (block_start b) = fadd fp E (fmul fp L (fdiv fp 1 f))
            \<and> (fdiv fp 1 f = 1 / f \<and> fmul fp L (1 / f) = L / f \<and> fadd fp E (L / f) = E + L / f
                 \<longrightarrow> E_AXIS (block_start b) - E_AXIS (block_target b) = L / f
                     \<and> (0 \<le> L / f
                          \<longrightarrow> \<bar>E_AXIS (block_target b) - E_AXIS (block_start b)\<bar> = L / f))"
proof -
  define L where "L = (if 1 < EXTRUDERS c \<and> swapping
                       then swap_retract_length s else retract_length s)"
  define f where "f = e_factor s ! active_extruder s"
  define E where "E = E_AXIS (current_position s)"
  define b where "b = queued (retract fp c True swapping s) ! length (queued s)"
  have acc: "accepted c True swapping s"
    using assms(2,3) by (simp add: accepted_def)
  have b: "b = \<lparr>block_start = (planner_position s)
                    \<lparr>E_AXIS := fadd fp E (fmul fp L (fdiv fp 1 f))\<rparr>,
                 block_target = current_position s,
                 block_feedrate = retract_feedrate_mm_s s\<rparr>"
    by (simp add: b_def L_def f_def E_def retract_queued_retracting [OF acc])
  have exact: "E_AXIS (block_start b) - E_AXIS (block_target b) = L / f
       \<and> (0 \<le> L / f \<longrightarrow> \<bar>E_AXIS (block_target b) - E_AXIS (block_start b)\<bar> = L / f)"
    if "fdiv fp 1 f = 1 / f \<and> fmul fp L (1 / f) = L / f \<and> fadd fp E (L / f) = E + L / f"
  proof -
    have "E_AXIS (block_start b) = E + L / f"
      using that by (simp add: b)
    moreover have "E_AXIS (block_target b) = E"
      by (simp add: b E_def)
    ultimately show ?thesis by linarith
  qed
  have c1: "length (queued s) < length (queued (retract fp c True swapping s))"
    and c2: "take (length (queued s)) (queued (retract fp c True swapping s)) = queued s"
    by (simp_all add: retract_queued_retracting [OF acc])
  have c3: "block_target b = current_position s"
    and c4: "block_feedrate b = retract_feedrate_mm_s s"
    and c5: "E_AXIS (block_start b) = fadd fp E (fmul fp L (fdiv fp 1 f))"
    by (simp_all add: b)
  from exact have c6:
    "fdiv fp 1 f = 1 / f \<and> fmul fp L (1 / f) = L / f \<and> fadd fp E (L / f) = E + L / f
       \<longrightarrow> E_AXIS (block_start b) - E_AXIS (block_target b) = L / f
           \<and> (0 \<le> L / f \<longrightarrow> \<bar>E_AXIS (block_target b) - E_AXIS (block_start b)\<bar> = L / f)"
    by blast
  show ?thesis
    unfolding Let_def L_def [symmetric] f_def [symmetric] E_def [symmetric] b_def [symmetric]
    by (intro conjI c1 c2 c3 c4 c5 c6)
qed

theorem retract_flow_compensation_witness:
  "valid example_build example_second
   \<and> \<not> retracted example_second ! active_extruder example_second
   \<and> \<not> (1 < EXTRUDERS example_build \<and> False
          \<and> retracted_swap example_second ! active_extruder example_second)
   \<and> e_factor example_second ! active_extruder example_second \<noteq> 0
   \<and> fdiv binary32 1 (1 / 2) = 1 / (1 / 2)
   \<and> fmul binary32 3 (1 / (1 / 2)) = 3 / (1 / 2)
   \<and> fadd binary32 100 (3 / (1 / 2)) = 100 + 3 / (1 / 2)
   \<and> (let s' = retract binary32 example_build True False example_second;
           b = queued s' ! length (queued example_second)
       in block_target b = current_position example_second
          \<and> block_feedrate b = 45
          \<and> E_AXIS (block_start b) = 106
          \<and> \<bar>E_AXIS (block_target b) - E_AXIS (block_start b)\<bar> = 6)
   \<and> valid example_build example_machine
   \<and> \<not> retracted example_machine ! active_extruder example_machine
   \<and> \<not> (1 < EXTRUDERS example_build \<and> True
          \<and> retracted_swap example_machine ! active_extruder example_machine)
   \<and> e_factor example_machine ! active_extruder example_machine \<noteq> 0
   \<and> (let s' = retract binary32 example_build True True example_machine;
           b = queued s' ! length (queued example_machine)
       in block_target b = current_position example_machine
          \<and> E_AXIS (block_start b) = 113
          \<and> \<bar>E_AXIS (block_target b) - E_AXIS (block_start b)\<bar> = 13)"
proof -
  have n: "1 < EXTRUDERS example_build"
    by (rule extruders_example)
  have h1: "valid example_build example_second"
    by (rule valid_examples)
  have h2: "\<not> retracted example_second ! active_extruder example_second"
    by (simp add: example_second_def example_machine_def)
  have h3: "\<not> (1 < EXTRUDERS example_build \<and> False
          \<and> retracted_swap example_second ! active_extruder example_second)"
    by simp
  have h4: "e_factor example_second ! active_extruder example_second \<noteq> 0"
    by (simp add: example_second_def example_machine_def)
  have f: "retract_length example_second = 3" "retract_feedrate_mm_s example_second = 45"
    "e_factor example_second ! active_extruder example_second = 1 / 2"
    "E_AXIS (current_position example_second) = 100"
    by (simp_all add: example_second_def example_machine_def)
  have plain: "let s' = retract binary32 example_build True False example_second;
           b = queued s' ! length (queued example_second)
       in block_target b = current_position example_second
          \<and> block_feedrate b = 45
          \<and> E_AXIS (block_start b) = 106
          \<and> \<bar>E_AXIS (block_target b) - E_AXIS (block_start b)\<bar> = 6"
    using retract_flow_compensation [OF h1 h2 h3 h4, where fp = binary32]
    by (auto simp add: Let_def f binary32_exact_values)
  have g1: "valid example_build example_machine"
    by (rule valid_examples)
  have g2: "\<not> retracted example_machine ! active_extruder example_machine"
    by (simp add: example_machine_def)
  have g3: "\<not> (1 < EXTRUDERS example_build \<and> True
          \<and> retracted_swap example_machine ! active_extruder example_machine)"
    by (simp add: example_machine_def)
  have g4: "e_factor example_machine ! active_extruder example_machine \<noteq> 0"
    by (simp add: example_machine_def)
  have g: "swap_retract_length example_machine = 13"
    "e_factor example_machine ! active_extruder example_machine = 1"
    "E_AXIS (current_position example_machine) = 100"
    by (simp_all add: example_machine_def)
  have swap: "let s' = retract binary32 example_build True True example_machine;
           b = queued s' ! length (queued example_machine)
       in block_target b = current_position example_machine
          \<and> E_AXIS (block_start b) = 113
          \<and> \<bar>E_AXIS (block_target b) - E_AXIS (block_start b)\<bar> = 13"
    using retract_flow_compensation [OF g1 g2 g3 g4, where fp = binary32] n
    by (auto simp add: Let_def g binary32_exact_values)
  show ?thesis
    using h1 h2 h4 g1 g2 g3 g4 plain swap
    by (simp add: binary32_exact_values)
qed

text \<open>
  The claim C6 as stated, on the machine with retract length 1 mm, flow factor 3 and
  filament coordinate 100, in binary32: the quotient 1/3 rounds to 11184811/2^25 and the
  sum to 13150891/2^17, so that the move queued by \<open>retract(true, false)\<close> has a filament
  displacement of magnitude 43691/131072, which is not 1/3.
\<close>

theorem retract_flow_compensation_counterexample:
  "valid example_build example_inexact
   \<and> \<not> retracted example_inexact ! active_extruder example_inexact
   \<and> retract_length example_inexact = 1
   \<and> e_factor example_inexact ! active_extruder example_inexact = 3
   \<and> queued example_inexact = []
   \<and> E_AXIS (block_target
        (queued (retract binary32 example_build True False example_inexact) ! 0)) = 100
   \<and> E_AXIS (block_start
        (queued (retract binary32 example_build True False example_inexact) ! 0))
        = 13150891 / 131072
   \<and> \<bar>E_AXIS (block_target
          (queued (retract binary32 example_build True False example_inexact) ! 0))
        - E_AXIS (block_start
          (queued (retract binary32 example_build True False example_inexact) ! 0))\<bar>
        = 43691 / 131072
   \<and> (43691 / 131072 :: real) \<noteq> 1 / 3"
proof -
  have acc: "accepted example_build True False example_inexact"
    by (simp add: accepted_def example_inexact_def example_machine_def)
  have f: "retract_length example_inexact = 1"
    "e_factor example_inexact ! active_extruder example_inexact = 3"
    "queued example_inexact = []"
    "E_AXIS (current_position example_inexact) = 100"
    "\<not> retracted example_inexact ! active_extruder example_inexact"
    by (simp_all add: example_inexact_def example_machine_def)
  have b: "E_AXIS (block_target
        (queued (retract binary32 example_build True False example_inexact) ! 0)) = 100"
    "E_AXIS (block_start
        (queued (retract binary32 example_build True False example_inexact) ! 0))
        = 13150891 / 131072"
    by (simp_all add: retract_queued_retracting [OF acc] f binary32_rounded_values)
  show ?thesis
    using valid_examples(5) by (simp add: f b)
qed

text \<open>
  Claim C5. A retract call raises \<open>hop_amount\<close> exactly when it is accepted, a hop is
  configured (\<open>retract_zlift > 0.01\<close>) and no hop is pending (\<open>hop_amount = 0\<close>), and then
  by \<open>retract_zlift\<close>; otherwise it leaves \<open>hop_amount\<close> alone. Hence, from a state with
  no hop pending, any run of retract requests with no recover in between, whatever
  extruders are selected and flags written on the way, ends with \<open>hop_amount\<close> either 0
  or one \<open>retract_zlift\<close>: it never goes above a single lift.
\<close>

theorem no_double_hop:
  assumes "valid c s"
    and "list_all (step_in_range c) steps"
  shows "hop_amount (retract fp c True swapping s) =
           (if accepted c True swapping s \<and> retract_zlift s > 0.01 \<and> hop_amount s = 0
            then hop_amount s + retract_zlift s else hop_amount s)
         \<and> (hop_amount s = 0 \<longrightarrow>
              (hop_amount (run fp c steps s) = 0 \<or> hop_amount (run fp c steps s) = retract_zlift s)
              \<and> (0 \<le> retract_zlift s \<longrightarrow> hop_amount (run fp c steps s) \<le> retract_zlift s))"
proof -
  have one: "hop_amount (retract fp c True swapping s) =
           (if accepted c True swapping s \<and> retract_zlift s > 0.01 \<and> hop_amount s = 0
            then hop_amount s + retract_zlift s else hop_amount s)"
    by (simp add: retract_hop)
  have many: "hop_amount (run fp c steps s) = 0 \<or> hop_amount (run fp c steps s) = retract_zlift s"
    if "hop_amount s = 0"
    using run_hop [where t = s and fp = fp and c = c and steps = steps] that by simp
  from one many show ?thesis by auto
qed

theorem no_double_hop_witness:
  "valid example_build example_machine
   \<and> list_all (step_in_range example_build)
        [Retract_call False, Write_flags False False, Retract_call False,
         Select_extruder 1, Retract_call True]
   \<and> hop_amount example_machine = 0
   \<and> accepted example_build True False example_machine
   \<and> hop_amount (retract binary32 example_build True False example_machine) = 1 / 2
   \<and> hop_amount (run binary32 example_build
        [Retract_call False, Write_flags False False, Retract_call False,
         Select_extruder 1, Retract_call True] example_machine) \<le> 1 / 2"
proof -
  have h1: "valid example_build example_machine"
    by (rule valid_examples)
  have h2: "list_all (step_in_range example_build)
        [Retract_call False, Write_flags False False, Retract_call False,
         Select_extruder 1, Retract_call True]"
    by (simp add: example_build_def)
  have h3: "accepted example_build True False example_machine"
    by (simp add: accepted_def example_machine_def)
  have f: "hop_amount example_machine = 0" "retract_zlift example_machine = 1 / 2"
    by (simp_all add: example_machine_def)
  show ?thesis
    using h1 h2 h3 no_double_hop [OF h1 h2, where fp = binary32 and swapping = False]
    by (simp add: f)
qed

section \<open>The recover transition\<close>





text \<open>
  Claim C2. In a build with several extruders, a recover request that meets the
  \<open>retracted_swap\<close> flag of the active extruder set is a swap recover whatever the caller
  passes as \<open>swapping\<close>: the call does what \<open>retract(false, true)\<close> does, its filament move
  is computed from \<open>swap_retract_length + swap_retract_recover_length\<close> and runs at
  \<open>swap_retract_recover_feedrate_mm_s\<close>, and both flags of the extruder end false. The
  state is one in which a swap-retracted extruder is retracted, as in every state that
  \<open>reset\<close> and \<open>retract\<close> produce.
\<close>

theorem recover_swap_priority:
  assumes "valid c s"
    and "1 < EXTRUDERS c"
    and "swap_within_retracted s"
    and "retracted_swap s ! active_extruder s"
    and "e_factor s ! active_extruder s \<noteq> 0"
  shows "let s' = retract fp c False swapping s;
             b = last (queued s');
             move_e = fadd fp (swap_retract_length s) (swap_retract_recover_length s);
             renormalize = fdiv fp 1 (e_factor s ! active_extruder s)
         in s' = retract fp c False True s
            \<and> E_AXIS (block_start b)
                = fsub fp (E_AXIS (current_position s)) (fmul fp move_e renormalize)
            \<and> block_target b = current_position s
            \<and> block_feedrate b = swap_retract_recover_feedrate_mm_s s
            \<and> \<not> retracted s' ! active_extruder s
            \<and> \<not> retracted_swap s' ! active_extruder s"
proof -
  let ?a = "active_extruder s"
  have a: "?a < length (retracted s)" "?a < length (retracted_swap s)"
    using assms(1,2) by (simp_all add: valid_def)
  have r: "retracted s ! ?a"
    using swap_within_retracted_nth [OF assms(3) a(1) assms(4)] .
  have acc: "accepted c False sw s" for sw
    using r assms(4) by (simp add: accepted_def)
  have same: "retract fp c False swapping s = retract fp c False True s"
    using assms(2,4) r by (simp add: retract_def swapping_in_effect_def)
  show ?thesis
    using a same assms(2,4)
    by (simp add: Let_def retract_queued_recovering [OF acc] retract_retracted
        retract_retracted_swap acc)
qed

theorem recover_swap_priority_witness:
  "valid example_build example_swapped
   \<and> 1 < EXTRUDERS example_build
   \<and> swap_within_retracted example_swapped
   \<and> retracted_swap example_swapped ! active_extruder example_swapped
   \<and> e_factor example_swapped ! active_extruder example_swapped \<noteq> 0
   \<and> (let s' = retract binary32 example_build False False example_swapped;
           b = last (queued s') in
           s' = retract binary32 example_build False True example_swapped
           \<and> E_AXIS (block_start b) = 87
           \<and> block_target b = current_position example_swapped
           \<and> block_feedrate b = 8
           \<and> \<not> retracted s' ! active_extruder example_swapped
           \<and> \<not> retracted_swap s' ! active_extruder example_swapped)"
proof -
  have h1: "valid example_build example_swapped"
    by (rule valid_examples)
  have h2: "1 < EXTRUDERS example_build"
    by (rule extruders_example)
  have h3: "swap_within_retracted example_swapped"
    by (simp add: swap_within_retracted_def example_swapped_def example_machine_def)
  have h4: "retracted_swap example_swapped ! active_extruder example_swapped"
    by (simp add: example_swapped_def example_machine_def)
  have h5: "e_factor example_swapped ! active_extruder example_swapped \<noteq> 0"
    by (simp add: example_swapped_def example_machine_def)
  have f: "swap_retract_length example_swapped = 13"
    "swap_retract_recover_length example_swapped = 0"
    "swap_retract_recover_feedrate_mm_s example_swapped = 8"
    "e_factor example_swapped ! active_extruder example_swapped = 1"
    "E_AXIS (current_position example_swapped) = 100"
    by (simp_all add: example_swapped_def example_machine_def)
  show ?thesis
    using h1 h2 h3 h4 h5 recover_swap_priority [OF h1 h2 h3 h4 h5, where fp = binary32 and swapping = False]
    by (auto simp add: Let_def f binary32_exact_values)
qed

section \<open>A retract followed by a recover\<close>

text \<open>
  Claim C3, as amended. Start from a recovered extruder with no hop pending and a hop
  configured (\<open>retract_zlift = h > 0.01\<close>). A retract call followed at once by a recover
  call that is accepted queues four moves: the filament pull, the hop from \<open>Z - h\<close> up to
  \<open>Z\<close>, the undo from \<open>Z + h\<close> back to \<open>Z\<close>, and the filament recovery, which has no Z
  displacement; \<open>Z - h\<close> and \<open>Z + h\<close> are the rounded results of lines 147 and 155. When
  both results are exact the Z displacements of the hop and of the undo sum to zero. In
  every case \<open>hop_amount\<close> ends at 0. (The filament pull starts where the planner stood;
  its Z displacement is zero when that was the tracked Z.)

  As stated, the claim fails in two ways, both shown after the theorem. In a build with
  several extruders a recover with \<open>swapping\<close> true after a plain retract returns at line
  104, so that the hop is neither undone nor cleared. And where \<open>Z - h\<close> or \<open>Z + h\<close> is
  rounded, the hop and its undo differ in length.
\<close>

theorem hop_symmetry_accepted:
  assumes "valid c s"
    and "\<not> retracted s ! active_extruder s"
    and "EXTRUDERS c \<le> 1 \<or> \<not> retracted_swap s ! active_extruder s"
    and "hop_amount s = 0"
    and "retract_zlift s > 0.01"
    and "\<not> (1 < EXTRUDERS c \<and> swapping2 \<and> \<not> swapping1)"
  shows "let s2 = retract fp c False swapping2 (retract fp c True swapping1 s);
             n = length (queued s);
             Z = Z_AXIS (current_position s);
             h = retract_zlift s;
             z_hop = \<lparr>block_start = (current_position s)\<lparr>Z_AXIS := fsub fp Z h\<rparr>,
                      block_target = current_position s,
                      block_feedrate = Z_AXIS (max_feedrate_mm_s s)\<rparr>;
             z_undo = \<lparr>block_start = (current_position s)\<lparr>Z_AXIS := fadd fp Z h\<rparr>,
                       block_target = current_position s,
                       block_feedrate = Z_AXIS (max_feedrate_mm_s s)\<rparr>
         in length (queued s2) = n + 4
            \<and> take n (queued s2) = queued s
            \<and> z_displacement (queued s2 ! n) = Z - Z_AXIS (planner_position s)
            \<and> queued s2 ! (n + 1) = z_hop
            \<and> queued s2 ! (n + 2) = z_undo
            \<and> z_displacement (queued s2 ! (n + 3)) = 0
            \<and> (fsub fp Z h = Z - h \<and> fadd fp Z h = Z + h
                 \<longrightarrow> z_displacement z_hop + z_displacement z_undo = 0)
            \<and> hop_amount s2 = 0"
proof -
  let ?a = "active_extruder s"
  let ?s1 = "retract fp c True swapping1 s"
  have a: "?a < length (retracted s)"
    using assms(1) by (simp add: valid_def)
  have a': "?a < length (retracted_swap s)" if "1 < EXTRUDERS c"
    using assms(1) that by (simp add: valid_def)
  have a1: "accepted c True swapping1 s"
    using assms(2,3) by (auto simp add: accepted_def)
  have a2: "accepted c False swapping2 ?s1"
    using a a' a1 assms(3,6)
    by (auto simp add: accepted_def retract_retracted retract_retracted_swap retract_active)
  have hop1: "hop_amount ?s1 \<noteq> 0"
    using a1 assms(4,5) by (simp add: retract_hop)
  have q1: "queued ?s1 = queued s @
     [\<lparr>block_start = (planner_position s)
          \<lparr>E_AXIS := fadd fp (E_AXIS (current_position s))
             (fmul fp (if 1 < EXTRUDERS c \<and> swapping1
                       then swap_retract_length s else retract_length s)
                (fdiv fp 1 (e_factor s ! active_extruder s)))\<rparr>,
       block_target = current_position s,
       block_feedrate = retract_feedrate_mm_s s\<rparr>,
      \<lparr>block_start = (current_position s)
           \<lparr>Z_AXIS := fsub fp (Z_AXIS (current_position s)) (retract_zlift s)\<rparr>,
       block_target = current_position s,
       block_feedrate = Z_AXIS (max_feedrate_mm_s s)\<rparr>]"
    using assms(4,5) by (simp add: retract_queued_retracting [OF a1])
  define e_recover where "e_recover = last (queued (retract fp c False swapping2 ?s1))"
  have q2: "queued (retract fp c False swapping2 ?s1) = queued ?s1 @
     [\<lparr>block_start = (current_position s)
          \<lparr>Z_AXIS := fadd fp (Z_AXIS (current_position s)) (retract_zlift s)\<rparr>,
       block_target = current_position s,
       block_feedrate = Z_AXIS (max_feedrate_mm_s s)\<rparr>,
      e_recover]"
    "z_displacement e_recover = 0"
    using hop1 unfolding e_recover_def
    by (simp_all add: retract_queued_recovering [OF a2] retract_position retract_config
        retract_max_feedrate z_displacement_def)
  have hop2: "hop_amount (retract fp c False swapping2 ?s1) = 0"
    by (simp add: retract_hop a2)
  show ?thesis
    using q2(2) unfolding Let_def
    by (simp add: q2(1) q1 hop2 nth_append z_displacement_def)
qed

theorem hop_symmetry_accepted_witness:
  "valid example_build example_machine
   \<and> \<not> retracted example_machine ! active_extruder example_machine
   \<and> (EXTRUDERS example_build \<le> 1
        \<or> \<not> retracted_swap example_machine ! active_extruder example_machine)
   \<and> hop_amount example_machine = 0
   \<and> retract_zlift example_machine > 0.01
   \<and> \<not> (1 < EXTRUDERS example_build \<and> False \<and> \<not> False)
   \<and> fsub binary32 5 (1 / 2) = 5 - 1 / 2
   \<and> fadd binary32 5 (1 / 2) = 5 + 1 / 2
   \<and> (let s2 = retract binary32 example_build False False
                  (retract binary32 example_build True False example_machine)
       in length (queued s2) = 4
          \<and> z_displacement (queued s2 ! 0) = 0
          \<and> z_displacement (queued s2 ! 1) = 1 / 2
          \<and> z_displacement (queued s2 ! 2) = - (1 / 2)
          \<and> z_displacement (queued s2 ! 3) = 0
          \<and> hop_amount s2 = 0)"
proof -
  have h1: "valid example_build example_machine"
    by (rule valid_examples)
  have h2: "\<not> retracted example_machine ! active_extruder example_machine"
    by (simp add: example_machine_def)
  have h3: "EXTRUDERS example_build \<le> 1
        \<or> \<not> retracted_swap example_machine ! active_extruder example_machine"
    by (simp add: example_machine_def)
  have h4: "hop_amount example_machine = 0"
    by (simp add: example_machine_def)
  have h5: "retract_zlift example_machine > 0.01"
    by (simp add: example_machine_def)
  have h6: "\<not> (1 < EXTRUDERS example_build \<and> False \<and> \<not> False)"
    by simp
  have f: "queued example_machine = []" "retract_zlift example_machine = 1 / 2"
    "Z_AXIS (current_position example_machine) = 5"
    "Z_AXIS (planner_position example_machine) = 5"
    by (simp_all add: example_machine_def)
  have t: "let s2 = retract binary32 example_build False False
                  (retract binary32 example_build True False example_machine)
       in length (queued s2) = 4
          \<and> z_displacement (queued s2 ! 0) = 0
          \<and> z_displacement (queued s2 ! 1) = 1 / 2
          \<and> z_displacement (queued s2 ! 2) = - (1 / 2)
          \<and> z_displacement (queued s2 ! 3) = 0
          \<and> hop_amount s2 = 0"
    using hop_symmetry_accepted [OF h1 h2 h3 h4 h5 h6, where fp = binary32]
    by (simp add: Let_def f binary32_exact_values z_displacement_def
        numeral_2_eq_2 numeral_3_eq_3)
  show ?thesis
    using h1 h2 h3 h4 h5 t by (simp add: binary32_exact_values)
qed

text \<open>
  The claim C3 as stated, on two machines of the build with two extruders, both recovered,
  with no hop pending, the planner at the tracked position and nothing queued, in
  binary32. First, with a hop of 0.5 mm: after \<open>retract(true, false)\<close> and then
  \<open>retract(false, true)\<close> the moves queued have a net Z displacement of 0.5 mm and
  \<open>hop_amount\<close> is 0.5. Second, with Z at 0.3 and a hop of 0.4 as binary32 has them: after
  \<open>retract(true, false)\<close> and then \<open>retract(false, false)\<close>, both accepted, the hop is
  13421773/2^25 long and the undo 6710887/2^24, and the net Z displacement of the moves
  queued is -1/2^25.
\<close>

theorem hop_symmetry_counterexample:
  "valid example_build example_machine
   \<and> \<not> retracted example_machine ! active_extruder example_machine
   \<and> \<not> retracted_swap example_machine ! active_extruder example_machine
   \<and> hop_amount example_machine = 0
   \<and> retract_zlift example_machine > 0.01
   \<and> planner_position example_machine = current_position example_machine
   \<and> queued example_machine = []
   \<and> net_z (queued (retract binary32 example_build False True
               (retract binary32 example_build True False example_machine))) = 1 / 2
   \<and> hop_amount (retract binary32 example_build False True
               (retract binary32 example_build True False example_machine)) = 1 / 2
   \<and> valid example_build example_inexact
   \<and> \<not> retracted example_inexact ! active_extruder example_inexact
   \<and> \<not> retracted_swap example_inexact ! active_extruder example_inexact
   \<and> hop_amount example_inexact = 0
   \<and> retract_zlift example_inexact > 0.01
   \<and> planner_position example_inexact = current_position example_inexact
   \<and> queued example_inexact = []
   \<and> map z_displacement (queued (retract binary32 example_build False False
               (retract binary32 example_build True False example_inexact)))
        = [0, 13421773 / 33554432, - (6710887 / 16777216), 0]
   \<and> net_z (queued (retract binary32 example_build False False
               (retract binary32 example_build True False example_inexact)))
        = - (1 / 33554432)"
proof -
  let ?s1 = "retract binary32 example_build True False example_machine"
  have n: "1 < EXTRUDERS example_build"
    by (rule extruders_example)
  have a1: "accepted example_build True False example_machine"
    by (simp add: accepted_def example_machine_def)
  have f: "hop_amount example_machine = 0" "retract_zlift example_machine = 1 / 2"
    "queued example_machine = []" "active_extruder example_machine = 0"
    "retracted_swap example_machine = [False, False]"
    "planner_position example_machine = current_position example_machine"
    "retracted example_machine = [False, False]"
    "Z_AXIS (current_position example_machine) = 5"
    by (simp_all add: example_machine_def)
  have "\<not> accepted example_build False True ?s1"
    using a1 n by (simp add: accepted_def retract_retracted retract_retracted_swap retract_active f)
  then have same: "retract binary32 example_build False True ?s1 = ?s1"
    by (rule retract_not_accepted)
  have hop: "hop_amount ?s1 = 1 / 2"
    using a1 by (simp add: retract_hop f)
  have nz: "net_z (queued ?s1) = 1 / 2"
    by (simp add: retract_queued_retracting [OF a1] f net_z_def z_displacement_def
        binary32_exact_values)
  have first: "net_z (queued (retract binary32 example_build False True ?s1)) = 1 / 2"
    "hop_amount (retract binary32 example_build False True ?s1) = 1 / 2"
    by (simp_all add: same hop nz)
  let ?t1 = "retract binary32 example_build True False example_inexact"
  have b1: "accepted example_build True False example_inexact"
    by (simp add: accepted_def example_inexact_def example_machine_def)
  have g: "hop_amount example_inexact = 0"
    "retract_zlift example_inexact = 13421773 / 33554432"
    "queued example_inexact = []" "active_extruder example_inexact = 0"
    "retracted_swap example_inexact = [False, False]"
    "planner_position example_inexact = current_position example_inexact"
    "retracted example_inexact = [False, False]"
    "Z_AXIS (current_position example_inexact) = 5033165 / 16777216"
    by (simp_all add: example_inexact_def example_machine_def)
  have b2: "accepted example_build False False ?t1"
    using b1 by (simp add: accepted_def retract_retracted retract_active g)
  have hop1: "hop_amount ?t1 \<noteq> 0"
    using b1 by (simp add: retract_hop g)
  have zs: "map z_displacement (queued (retract binary32 example_build False False ?t1))
        = [0, 13421773 / 33554432, - (6710887 / 16777216), 0]"
    using hop1
    by (simp add: retract_queued_recovering [OF b2] retract_queued_retracting [OF b1]
        retract_position retract_config retract_max_feedrate retract_planner [OF b1] g
        z_displacement_def binary32_rounded_values)
  then have second: "net_z (queued (retract binary32 example_build False False ?t1))
        = - (1 / 33554432)"
    by (simp add: net_z_def)
  show ?thesis
    using valid_examples(1) valid_examples(5) first zs second
    by (simp add: f g)
qed

section \<open>reset\<close>

text \<open>
  Claim C9. \<open>reset\<close> always ends (the build has at most 255 extruders, so the 8-bit counter
  of the loop does not wrap) and has no failure: it yields the state in which every
  configuration field holds its compiled-in default, \<open>autoretract_enabled\<close> is false,
  \<open>retracted\<close> is false for every extruder and, in a build with several extruders,
  \<open>retracted_swap\<close> is false for every extruder. Nothing else is written; in particular
  \<open>hop_amount\<close> is not.
\<close>

theorem reset_restores_defaults:
  assumes "EXTRUDERS c \<le> 255"
    and "length (retracted s) = EXTRUDERS c"
    and "EXTRUDERS c \<le> 1 \<or> length (retracted_swap s) = EXTRUDERS c"
  shows "reset c s =
     Some (s\<lparr>autoretract_enabled := False,
             retract_length := RETRACT_LENGTH c,
             retract_feedrate_mm_s := RETRACT_FEEDRATE c,
             retract_zlift := RETRACT_ZLIFT c,
             retract_recover_length := RETRACT_RECOVER_LENGTH c,
             retract_recover_feedrate_mm_s := RETRACT_RECOVER_FEEDRATE c,
             swap_retract_length := RETRACT_LENGTH_SWAP c,
             swap_retract_recover_length := RETRACT_RECOVER_LENGTH_SWAP c,
             swap_retract_recover_feedrate_mm_s := RETRACT_RECOVER_FEEDRATE_SWAP c,
             retracted := replicate (EXTRUDERS c) False,
             retracted_swap :=
               (if 1 < EXTRUDERS c then replicate (EXTRUDERS c) False else retracted_swap s)\<rparr>)"
  using assms by (rule reset_value)

theorem reset_restores_defaults_witness:
  "EXTRUDERS example_build \<le> 255
   \<and> length (retracted example_swapped) = EXTRUDERS example_build
   \<and> (EXTRUDERS example_build \<le> 1
        \<or> length (retracted_swap example_swapped) = EXTRUDERS example_build)
   \<and> reset example_build example_swapped = Some (example_machine\<lparr>hop_amount := 1 / 2\<rparr>)"
proof -
  have h1: "EXTRUDERS example_build \<le> 255"
    by (rule extruders_example)
  have h2: "length (retracted example_swapped) = EXTRUDERS example_build"
    by (simp add: example_swapped_def example_machine_def example_build_def)
  have h3: "EXTRUDERS example_build \<le> 1
        \<or> length (retracted_swap example_swapped) = EXTRUDERS example_build"
    by (simp add: example_swapped_def example_machine_def example_build_def)
  have two: "replicate 2 False = [False, False]"
    by (simp add: numeral_2_eq_2)
  show ?thesis
    using h1 h2 h3 reset_restores_defaults [OF h1 h2 h3]
    by (simp add: example_swapped_def example_machine_def example_build_def two)
qed

end
